theory Spec2Isabelle
  imports Complex_Main
begin

section \<open>Data model of \<open>useDragSelection\<close>\<close>

text \<open>
  The hook \<open>useDragSelection(targetRef, onSelectionChange)\<close> of
  \<open>src/useDragSelection.js\<close> keeps seven \<open>useState\<close> cells and three event
  handlers. Coordinates are JavaScript numbers; they are modelled as exact numbers
  of type \<open>real\<close> (no rounding, no \<open>NaN\<close>). A value that may be \<open>null\<close> or
  \<open>undefined\<close> is an \<open>option\<close>; reading a property of \<open>undefined\<close> raises
  \<open>TypeError\<close>, which is the only error of the model.
\<close>

datatype error = TypeError

text \<open>\<open>{ x, y }\<close>: the objects stored in \<open>dragStart\<close> and \<open>dragEnd\<close>.\<close>

record point =
  pt_x :: real
  pt_y :: real

text \<open>
  \<open>{ left, top, width, height }\<close>: the selection box, and the four fields that
  \<open>boxesIntersect\<close> reads of an item's \<open>getBoundingClientRect()\<close>.
\<close>

record rect =
  box_left :: real
  box_top :: real
  box_width :: real
  box_height :: real

text \<open>\<open>{ top, left, bottom, right }\<close>: the result of \<open>getTargetMargin\<close>.\<close>

record margin =
  margin_top :: real
  margin_left :: real
  margin_bottom :: real
  margin_right :: real

text \<open>
  The four fields that \<open>getTargetMargin\<close> reads of the target's
  \<open>getBoundingClientRect()\<close>.
\<close>

record target_box =
  target_top :: real
  target_left :: real
  target_bottom :: real
  target_right :: real

text \<open>\<open>{ left, top, right, bottom }\<close>: the result of \<open>isWithinTarget\<close>.\<close>

record within_flags =
  within_left :: bool
  within_top :: bool
  within_right :: bool
  within_bottom :: bool

text \<open>The fields of a mouse event that the handlers read.\<close>

record mouse_event =
  pageX :: real
  pageY :: real
  clientX :: real
  clientY :: real
  buttons :: nat

text \<open>
  The \<open>useState\<close> cells of the hook. An item is an opaque DOM element of type
  \<open>'a\<close>, compared by identity; an entry of \<open>items\<close> is an \<open>option\<close> because the
  reconciler guards against a falsy entry. \<open>selectedIndex\<close> is a JavaScript
  \<open>Set\<close> of array indices.
\<close>

record 'a hook_state =
  dragStart :: "point option"
  dragEnd :: "point option"
  isMouseDown :: bool
  selectionBox :: "rect option"
  showSelection :: bool
  selectedIndex :: "nat set"
  items :: "'a option list"

definition initial_state :: "'a hook_state" where
  "initial_state =
     \<lparr>dragStart = None, dragEnd = None, isMouseDown = False, selectionBox = None,
      showSelection = False, selectedIndex = {}, items = []\<rparr>"

section \<open>Geometry\<close>

text \<open>
  \<open>calculateSelectionBox(start, end)\<close> reads \<open>left\<close> and \<open>top\<close> from the
  closure's \<open>dragStart\<close> and \<open>dragEnd\<close> and \<open>width\<close> and \<open>height\<close> from its
  parameters. The closure's cells are the first two arguments here; reading
  \<open>.x\<close> of a \<open>null\<close> cell raises \<open>TypeError\<close>.
\<close>

definition calculateSelectionBox ::
  "point option \<Rightarrow> point option \<Rightarrow> point \<Rightarrow> point \<Rightarrow> error + rect" where
  "calculateSelectionBox dStart dEnd start endp =
     (case dStart of
        None \<Rightarrow> Inl TypeError
      | Some ds \<Rightarrow>
          (case dEnd of
             None \<Rightarrow> Inl TypeError
           | Some de \<Rightarrow>
               Inr \<lparr>box_left = min (pt_x ds) (pt_x de),
                    box_top = min (pt_y ds) (pt_y de),
                    box_width = \<bar>pt_x start - pt_x endp\<bar>,
                    box_height = \<bar>pt_y start - pt_y endp\<bar>\<rparr>))"

definition boxesIntersect :: "rect \<Rightarrow> rect \<Rightarrow> bool" where
  "boxesIntersect boxA boxB \<longleftrightarrow>
     box_left boxA \<le> box_left boxB + box_width boxB \<and>
     box_left boxA + box_width boxA \<ge> box_left boxB \<and>
     box_top boxA \<le> box_top boxB + box_height boxB \<and>
     box_top boxA + box_height boxA \<ge> box_top boxB"

text \<open>
  \<open>isWithinTarget(pageX, pageY, margin)\<close>; \<open>margin\<close> is \<open>undefined\<close> when the
  target is not mounted, and \<open>margin.left\<close> then raises.
\<close>

definition isWithinTarget :: "real \<Rightarrow> real \<Rightarrow> margin option \<Rightarrow> error + within_flags" where
  "isWithinTarget px py mg =
     (case mg of
        None \<Rightarrow> Inl TypeError
      | Some m \<Rightarrow>
          Inr \<lparr>within_left = (px - margin_left m \<ge> 0),
               within_top = (py - margin_top m \<ge> 0),
               within_right = (margin_right m - px \<ge> 0),
               within_bottom = (margin_bottom m - py \<ge> 0)\<rparr>)"

text \<open>\<open>Object.values\<close> of the object built by \<open>isWithinTarget\<close>, in key order.\<close>

definition within_values :: "within_flags \<Rightarrow> bool list" where
  "within_values w = [within_left w, within_top w, within_right w, within_bottom w]"

text \<open>
  \<open>getTargetMargin(target)\<close>: \<open>target.current\<close> is the first argument (absent
  when the target is not mounted), \<open>window.scrollX\<close> and \<open>window.scrollY\<close> the
  other two.
\<close>

definition getTargetMargin :: "target_box option \<Rightarrow> real \<Rightarrow> real \<Rightarrow> margin option" where
  "getTargetMargin current scrollX scrollY =
     (case current of
        None \<Rightarrow> None
      | Some boundingBox \<Rightarrow>
          Some \<lparr>margin_top = target_top boundingBox + scrollY,
                margin_left = target_left boundingBox + scrollX,
                margin_bottom = target_bottom boundingBox + scrollY,
                margin_right = target_right boundingBox + scrollX\<rparr>)"

text \<open>
  The closed region that a rectangle covers: the notion of the specification
  against which \<open>boxesIntersect\<close> is compared.
\<close>

definition in_closed_rect :: "rect \<Rightarrow> real \<Rightarrow> real \<Rightarrow> bool" where
  "in_closed_rect r px py \<longleftrightarrow>
     box_left r \<le> px \<and> px \<le> box_left r + box_width r \<and>
     box_top r \<le> py \<and> py \<le> box_top r + box_height r"

section \<open>The item registry\<close>

text \<open>
  \<open>addItem(item)\<close> reads two arrays. The test \<open>items.includes(item)\<close> reads
  the constant \<open>items\<close> of the render that made the closure: the first
  argument here. The updater \<open>(items) => [...items, item]\<close> given to
  \<open>setItems\<close> appends to the array that is pending when it runs: the
  \<open>items\<close> cell of the state. Calls made from one render share the first
  argument, whatever the calls before them have appended. A falsy item is
  ignored. (\<open>observer.observe\<close> touches no cell of the hook.)
\<close>

definition addItem :: "'a option list \<Rightarrow> 'a option \<Rightarrow> 'a hook_state \<Rightarrow> 'a hook_state" where
  "addItem rendered item st =
     (if item = None \<or> item \<in> set rendered then st
      else st\<lparr>items := items st @ [item]\<rparr>)"

section \<open>The drag state machine\<close>

text \<open>
  The handlers set their cells to values, not through updaters; each is modelled
  on the committed state: the cells that its closure reads are those left by the
  calls before it.
\<close>

definition resetSelection :: "'a hook_state \<Rightarrow> 'a hook_state" where
  "resetSelection st = st\<lparr>dragStart := None, dragEnd := None, selectedIndex := {}\<rparr>"

text \<open>\<open>evt.preventDefault()\<close> touches no cell of the hook and is left out.\<close>

definition onMouseUp :: "mouse_event \<Rightarrow> 'a hook_state \<Rightarrow> 'a hook_state" where
  "onMouseUp evt st =
     resetSelection (st\<lparr>showSelection := False, selectionBox := None, isMouseDown := False\<rparr>)"

text \<open>
  \<open>onMouseDown\<close>; its first argument is the \<open>margin\<close> of the current render,
  \<open>getTargetMargin(targetRef)\<close>.
\<close>

definition onMouseDown ::
  "margin option \<Rightarrow> mouse_event \<Rightarrow> 'a hook_state \<Rightarrow> error + 'a hook_state" where
  "onMouseDown mg evt st =
     (case isWithinTarget (pageX evt) (pageY evt) mg of
        Inl e \<Rightarrow> Inl e
      | Inr w \<Rightarrow>
          (let isValidStart = list_all (\<lambda>point. point = True) (within_values w)
           in if \<not> isValidStart then Inr st
              else Inr ((resetSelection st)
                         \<lparr>showSelection := True, isMouseDown := True,
                          dragStart := Some \<lparr>pt_x = pageX evt, pt_y = pageY evt\<rparr>\<rparr>)))"

text \<open>
  \<open>v || d\<close> on a number that may be \<open>undefined\<close> (the value of \<open>dragEnd?.x\<close>
  when \<open>dragEnd\<close> is \<open>null\<close>): \<open>undefined\<close> and \<open>0\<close> are falsy.
\<close>

definition or_else :: "real option \<Rightarrow> real \<Rightarrow> real" where
  "or_else v d = (case v of None \<Rightarrow> d | Some n \<Rightarrow> if n = 0 then d else n)"

definition onMouseMove ::
  "margin option \<Rightarrow> mouse_event \<Rightarrow> 'a hook_state \<Rightarrow> error + 'a hook_state" where
  "onMouseMove mg evt st =
     (if \<not> isMouseDown st then Inr st
      else
        (let isButtonPressed = (buttons evt \<noteq> 0)
         in if \<not> isButtonPressed then Inr (onMouseUp evt st)
            else
              (let tempPoint =
                     \<lparr>pt_x = or_else (map_option pt_x (dragEnd st)) (clientX evt),
                      pt_y = or_else (map_option pt_y (dragEnd st)) (clientY evt)\<rparr>
               in case isWithinTarget (clientX evt) (clientY evt) mg of
                    Inl e \<Rightarrow> Inl e
                  | Inr isWithinRange \<Rightarrow>
                      (let tempPoint1 =
                             (if within_top isWithinRange \<and> within_bottom isWithinRange
                              then tempPoint\<lparr>pt_y := clientY evt\<rparr> else tempPoint);
                           tempPoint2 =
                             (if within_left isWithinRange \<and> within_right isWithinRange
                              then tempPoint1\<lparr>pt_x := clientX evt\<rparr> else tempPoint1)
                       in Inr (st\<lparr>dragEnd := Some tempPoint2\<rparr>)))))"

section \<open>The selection reconciler\<close>

text \<open>
  The body of \<open>items.forEach((item, _i) => ...)\<close> in the effect: the box of
  the selection, the items' \<open>getBoundingClientRect\<close>, the \<open>selectedIndex\<close> of
  the closure, the index of the next item, the items left, and \<open>newIndexes\<close>.
\<close>

fun forEach_items ::
  "rect \<Rightarrow> ('a \<Rightarrow> rect) \<Rightarrow> nat set \<Rightarrow> nat \<Rightarrow> 'a option list \<Rightarrow> nat set \<Rightarrow> nat set" where
  "forEach_items box bbox sel i [] newIndexes = newIndexes"
| "forEach_items box bbox sel i (item # rest) newIndexes =
     forEach_items box bbox sel (Suc i) rest
       (case item of
          None \<Rightarrow> newIndexes
        | Some el \<Rightarrow>
            (let isIntersecting = boxesIntersect box (bbox el)
             in if isIntersecting \<and> i \<notin> sel then insert i newIndexes
                else if \<not> isIntersecting \<and> i \<in> sel then newIndexes - {i}
                else newIndexes))"

text \<open>
  The effect with dependencies \<open>[dragStart, dragEnd]\<close>. It returns the new
  cells and the argument of the call of \<open>onSelectionChange\<close>, if it makes one.
  (\<open>!items\<close> is never true of an array.)
\<close>

definition selectionEffect ::
  "('a \<Rightarrow> rect) \<Rightarrow> 'a hook_state \<Rightarrow> error + ('a hook_state \<times> nat set option)" where
  "selectionEffect bbox st =
     (case dragStart st of
        None \<Rightarrow> Inr (st, None)
      | Some ds \<Rightarrow>
          (case dragEnd st of
             None \<Rightarrow> Inr (st, None)
           | Some de \<Rightarrow>
               (case calculateSelectionBox (dragStart st) (dragEnd st) ds de of
                  Inl e \<Rightarrow> Inl e
                | Inr box \<Rightarrow>
                    (let newIndexes =
                           forEach_items box bbox (selectedIndex st) 0 (items st)
                             (selectedIndex st)
                     in Inr (st\<lparr>selectedIndex := newIndexes, selectionBox := Some box\<rparr>,
                             Some newIndexes)))))"

section \<open>Reachable states\<close>

text \<open>
  The states of the hook: the initial cells, and what a registration (from a
  render with any array of items), a handler that returns, or a run of the
  effect (under any layout of the items and any margin of the target) makes of
  a reachable state.
\<close>

inductive reachable :: "'a hook_state \<Rightarrow> bool" where
  reach_init: "reachable initial_state"
| reach_add: "reachable st \<Longrightarrow> reachable (addItem rendered item st)"
| reach_down: "reachable st \<Longrightarrow> onMouseDown mg evt st = Inr st' \<Longrightarrow> reachable st'"
| reach_move: "reachable st \<Longrightarrow> onMouseMove mg evt st = Inr st' \<Longrightarrow> reachable st'"
| reach_up: "reachable st \<Longrightarrow> reachable (onMouseUp evt st)"
| reach_effect: "reachable st \<Longrightarrow> selectionEffect bbox st = Inr (st', out) \<Longrightarrow> reachable st'"

section \<open>Theorems\<close>

subsection \<open>Geometry\<close>

lemma boxesIntersect_sym: "boxesIntersect r1 r2 = boxesIntersect r2 r1"
  by (auto simp: boxesIntersect_def)

lemma boxesIntersect_common_point:
  assumes "0 \<le> box_width r1" "0 \<le> box_height r1" "0 \<le> box_width r2" "0 \<le> box_height r2"
  shows "boxesIntersect r1 r2 \<longleftrightarrow> (\<exists>px py. in_closed_rect r1 px py \<and> in_closed_rect r2 px py)"
proof
  assume hit: "boxesIntersect r1 r2"
  let ?px = "max (box_left r1) (box_left r2)"
  let ?py = "max (box_top r1) (box_top r2)"
  from hit assms have "in_closed_rect r1 ?px ?py \<and> in_closed_rect r2 ?px ?py"
    by (simp add: boxesIntersect_def in_closed_rect_def)
  then show "\<exists>px py. in_closed_rect r1 px py \<and> in_closed_rect r2 px py"
    by blast
next
  assume "\<exists>px py. in_closed_rect r1 px py \<and> in_closed_rect r2 px py"
  then obtain px py where "in_closed_rect r1 px py" "in_closed_rect r2 px py"
    by blast
  then show "boxesIntersect r1 r2"
    by (simp add: boxesIntersect_def in_closed_rect_def)
qed

text \<open>
  C8. At its call site, \<open>calculateSelectionBox(dragStart, dragEnd)\<close> with both
  cells set to the points \<open>a\<close> and \<open>b\<close>, the function returns without failure the
  rectangle with \<open>left = min(a.x, b.x)\<close>, \<open>top = min(a.y, b.y)\<close>,
  \<open>width = |a.x - b.x|\<close> and \<open>height = |a.y - b.y|\<close>; width and height are
  non-negative, and exchanging the two points gives the same rectangle.
\<close>

theorem calculateSelectionBox_normalized:
  "(\<exists>r. calculateSelectionBox (Some a) (Some b) a b = Inr r \<and>
        box_left r = min (pt_x a) (pt_x b) \<and>
        box_top r = min (pt_y a) (pt_y b) \<and>
        box_width r = \<bar>pt_x a - pt_x b\<bar> \<and>
        box_height r = \<bar>pt_y a - pt_y b\<bar> \<and>
        0 \<le> box_width r \<and> 0 \<le> box_height r) \<and>
   calculateSelectionBox (Some b) (Some a) b a = calculateSelectionBox (Some a) (Some b) a b \<and>
   calculateSelectionBox (Some a) (Some b) b a = calculateSelectionBox (Some a) (Some b) a b"
  by (simp add: calculateSelectionBox_def min.commute abs_minus_commute)

text \<open>
  C9. \<open>boxesIntersect\<close> is inclusive on touching edges. For rectangles of
  non-negative width and height it holds exactly when the two closed regions have
  a point in common; so two rectangles that share an edge intersect (the right
  edge of one being the left edge of the other, or the bottom edge of one the top
  edge of the other, in either argument order), and a zero-area rectangle
  intersects another rectangle exactly when its point lies in the other's closed
  region.
\<close>

theorem boxesIntersect_inclusive:
  assumes "0 \<le> box_width r1" "0 \<le> box_height r1" "0 \<le> box_width r2" "0 \<le> box_height r2"
  shows "(boxesIntersect r1 r2 \<longleftrightarrow>
            (\<exists>px py. in_closed_rect r1 px py \<and> in_closed_rect r2 px py)) \<and>
         (box_left r2 = box_left r1 + box_width r1 \<and> box_top r2 = box_top r1 \<and>
            box_height r2 = box_height r1 \<longrightarrow>
            boxesIntersect r1 r2 \<and> boxesIntersect r2 r1) \<and>
         (box_top r2 = box_top r1 + box_height r1 \<and> box_left r2 = box_left r1 \<and>
            box_width r2 = box_width r1 \<longrightarrow>
            boxesIntersect r1 r2 \<and> boxesIntersect r2 r1) \<and>
         (box_width r1 = 0 \<and> box_height r1 = 0 \<longrightarrow>
            (boxesIntersect r1 r2 \<longleftrightarrow> in_closed_rect r2 (box_left r1) (box_top r1)))"
proof (intro conjI impI)
  show "boxesIntersect r1 r2 \<longleftrightarrow> (\<exists>px py. in_closed_rect r1 px py \<and> in_closed_rect r2 px py)"
    using assms by (rule boxesIntersect_common_point)
next
  assume "box_left r2 = box_left r1 + box_width r1 \<and> box_top r2 = box_top r1 \<and>
    box_height r2 = box_height r1"
  with assms show "boxesIntersect r1 r2" "boxesIntersect r2 r1"
    by (simp_all add: boxesIntersect_def)
next
  assume "box_top r2 = box_top r1 + box_height r1 \<and> box_left r2 = box_left r1 \<and>
    box_width r2 = box_width r1"
  with assms show "boxesIntersect r1 r2" "boxesIntersect r2 r1"
    by (simp_all add: boxesIntersect_def)
next
  assume "box_width r1 = 0 \<and> box_height r1 = 0"
  then show "boxesIntersect r1 r2 \<longleftrightarrow> in_closed_rect r2 (box_left r1) (box_top r1)"
    by (auto simp: boxesIntersect_def in_closed_rect_def)
qed

theorem boxesIntersect_inclusive_witness:
  "boxesIntersect \<lparr>box_left = 0, box_top = 0, box_width = 10, box_height = 10\<rparr>
                  \<lparr>box_left = 10, box_top = 0, box_width = 10, box_height = 10\<rparr> \<and>
   \<not> boxesIntersect \<lparr>box_left = 0, box_top = 0, box_width = 0, box_height = 0\<rparr>
                    \<lparr>box_left = 5, box_top = 5, box_width = 0, box_height = 0\<rparr>"
proof -
  let ?r1 = "\<lparr>box_left = 0, box_top = 0, box_width = 10, box_height = 10\<rparr>"
  let ?r2 = "\<lparr>box_left = 10, box_top = 0, box_width = 10, box_height = 10\<rparr>"
  let ?p = "\<lparr>box_left = 0, box_top = 0, box_width = 0, box_height = 0\<rparr>"
  let ?q = "\<lparr>box_left = 5, box_top = 5, box_width = 0, box_height = 0\<rparr>"
  have edge: "box_left ?r2 = box_left ?r1 + box_width ?r1 \<and> box_top ?r2 = box_top ?r1 \<and>
      box_height ?r2 = box_height ?r1"
    by simp
  have "0 \<le> box_width ?r1" "0 \<le> box_height ?r1" "0 \<le> box_width ?r2" "0 \<le> box_height ?r2"
    by simp_all
  from boxesIntersect_inclusive [OF this] edge have "boxesIntersect ?r1 ?r2"
    by blast
  moreover
  have "0 \<le> box_width ?p" "0 \<le> box_height ?p" "0 \<le> box_width ?q" "0 \<le> box_height ?q"
    and zero: "box_width ?p = 0 \<and> box_height ?p = 0"
    by simp_all
  from boxesIntersect_inclusive [OF this(1-4)] zero
  have "boxesIntersect ?p ?q \<longleftrightarrow> in_closed_rect ?q (box_left ?p) (box_top ?p)"
    by blast
  then have "\<not> boxesIntersect ?p ?q"
    by (simp add: in_closed_rect_def)
  ultimately show ?thesis by simp
qed

subsection \<open>The item registry\<close>

lemma addItem_rendered:
  "(item \<in> set rendered \<longrightarrow> addItem rendered item st = st) \<and>
   (item \<noteq> None \<and> item \<notin> set rendered \<longrightarrow>
      items (addItem rendered item st) = items st @ [item]) \<and>
   take (length (items st)) (items (addItem rendered item st)) = items st"
  by (simp add: addItem_def)

text \<open>
  C7. The claim is that registration is idempotent, so that registering the
  same item twice gives a registry of size one. The code misses it for two calls
  made from one render: both test the item against that render's \<open>items\<close>,
  here the empty array of the first render, both pass, and both updaters append.
  The registry then holds the item twice. (A call from a render whose \<open>items\<close>
  holds the item changes nothing, and the items registered before keep their
  positions: lemma \<open>addItem_rendered\<close>.)
\<close>

theorem addItem_same_render_twice:
  "items (addItem [] (Some 0) (addItem [] (Some 0) (initial_state :: nat hook_state)))
     = [Some 0, Some 0] \<and>
   length (items (addItem [] (Some 0) (addItem [] (Some 0) (initial_state :: nat hook_state))))
     = 2"
  by (simp add: addItem_def initial_state_def)

subsection \<open>The drag state machine\<close>

text \<open>
  C3. The claim is that a pointer-down is rejected without failure when the
  target is not mounted. The code raises instead: \<open>getTargetMargin\<close> returns
  no margin, and \<open>onMouseDown\<close> passes it to \<open>isWithinTarget\<close>, which reads
  \<open>margin.left\<close>.
\<close>

theorem onMouseDown_absent_margin_raises:
  "getTargetMargin None 0 0 = None \<and>
   onMouseDown (getTargetMargin None 0 0)
     \<lparr>pageX = 10, pageY = 10, clientX = 10, clientY = 10, buttons = 1\<rparr>
     (initial_state :: nat hook_state) = Inl TypeError"
  by (simp add: getTargetMargin_def onMouseDown_def isWithinTarget_def)

text \<open>
  C5. With a margin present, a pointer-down of which one of the four flags of
  \<open>isWithinTarget\<close> is false leaves the state as it is; when all four are
  true the result is dragging, with the selected set empty, \<open>dragStart\<close> the
  point of the event and \<open>dragEnd\<close> absent.
\<close>

theorem onMouseDown_valid_start:
  assumes "isWithinTarget (pageX evt) (pageY evt) (Some m) = Inr w"
  shows "(\<not> (within_left w \<and> within_top w \<and> within_right w \<and> within_bottom w) \<longrightarrow>
            onMouseDown (Some m) evt st = Inr st) \<and>
         (within_left w \<and> within_top w \<and> within_right w \<and> within_bottom w \<longrightarrow>
            (\<exists>st'. onMouseDown (Some m) evt st = Inr st' \<and>
               isMouseDown st' \<and> showSelection st' \<and> selectedIndex st' = {} \<and>
               dragStart st' = Some \<lparr>pt_x = pageX evt, pt_y = pageY evt\<rparr> \<and>
               dragEnd st' = None \<and> selectionBox st' = selectionBox st \<and>
               items st' = items st))"
  using assms
  by (auto simp: onMouseDown_def within_values_def resetSelection_def Let_def)

theorem onMouseDown_valid_start_witness:
  "onMouseDown
     (Some \<lparr>margin_top = 0, margin_left = 0, margin_bottom = 100, margin_right = 100\<rparr>)
     \<lparr>pageX = 150, pageY = 50, clientX = 150, clientY = 50, buttons = 1\<rparr>
     \<lparr>dragStart = None, dragEnd = None, isMouseDown = False, selectionBox = None,
      showSelection = False, selectedIndex = {}, items = [Some (7::nat)]\<rparr>
   = Inr \<lparr>dragStart = None, dragEnd = None, isMouseDown = False, selectionBox = None,
          showSelection = False, selectedIndex = {}, items = [Some 7]\<rparr> \<and>
   (\<exists>st'. onMouseDown
      (Some \<lparr>margin_top = 0, margin_left = 0, margin_bottom = 100, margin_right = 100\<rparr>)
      \<lparr>pageX = 50, pageY = 50, clientX = 50, clientY = 50, buttons = 1\<rparr>
      \<lparr>dragStart = None, dragEnd = None, isMouseDown = False, selectionBox = None,
       showSelection = False, selectedIndex = {}, items = [Some (7::nat)]\<rparr> = Inr st' \<and>
      isMouseDown st' \<and> selectedIndex st' = {} \<and>
      dragStart st' = Some \<lparr>pt_x = 50, pt_y = 50\<rparr> \<and> dragEnd st' = None)"
proof -
  let ?m = "\<lparr>margin_top = 0, margin_left = 0, margin_bottom = 100, margin_right = 100\<rparr>"
  let ?out = "\<lparr>pageX = 150, pageY = 50, clientX = 150, clientY = 50, buttons = 1\<rparr>"
  let ?in = "\<lparr>pageX = 50, pageY = 50, clientX = 50, clientY = 50, buttons = 1\<rparr>"
  let ?st = "\<lparr>dragStart = None, dragEnd = None, isMouseDown = False, selectionBox = None,
      showSelection = False, selectedIndex = {}, items = [Some (7::nat)]\<rparr>"
  have "isWithinTarget (pageX ?out) (pageY ?out) (Some ?m) =
      Inr \<lparr>within_left = True, within_top = True, within_right = False, within_bottom = True\<rparr>"
    by (simp add: isWithinTarget_def)
  from onMouseDown_valid_start [OF this, of ?st]
  have rejected: "onMouseDown (Some ?m) ?out ?st = Inr ?st"
    by simp
  have "isWithinTarget (pageX ?in) (pageY ?in) (Some ?m) =
      Inr \<lparr>within_left = True, within_top = True, within_right = True, within_bottom = True\<rparr>"
    by (simp add: isWithinTarget_def)
  from onMouseDown_valid_start [OF this, of ?st]
  have "\<exists>st'. onMouseDown (Some ?m) ?in ?st = Inr st' \<and>
      isMouseDown st' \<and> selectedIndex st' = {} \<and>
      dragStart st' = Some \<lparr>pt_x = 50, pt_y = 50\<rparr> \<and> dragEnd st' = None"
    by simp blast
  with rejected show ?thesis by blast
qed

lemma onMouseMove_pressed:
  assumes "isMouseDown st" and "buttons evt \<noteq> 0"
  shows "onMouseMove (Some m) evt st =
     Inr (st\<lparr>dragEnd := Some
            \<lparr>pt_x = (if margin_left m \<le> clientX evt \<and> clientX evt \<le> margin_right m
                     then clientX evt
                     else or_else (map_option pt_x (dragEnd st)) (clientX evt)),
             pt_y = (if margin_top m \<le> clientY evt \<and> clientY evt \<le> margin_bottom m
                     then clientY evt
                     else or_else (map_option pt_y (dragEnd st)) (clientY evt))\<rparr>\<rparr>)"
  using assms by (simp add: onMouseMove_def isWithinTarget_def Let_def)

text \<open>
  C2, as amended. On a pointer-move while dragging with a button pressed and a
  margin present, each component of the new end point is the raw coordinate of
  the event when the raw point is within both bounds of that axis; when no
  previous end exists the new end is the raw point; and a component out of its
  bounds keeps the previous end's component when that is not zero. With margin
  \<open>{left: 0, top: 0, right: 100, bottom: 100}\<close> and previous end \<open>(80, 50)\<close>,
  a move to \<open>(150, 50)\<close> gives the end \<open>(80, 50)\<close>; with no previous end it
  gives \<open>(150, 50)\<close>.
\<close>

theorem onMouseMove_axis_clamp:
  assumes "isMouseDown st" and "buttons evt \<noteq> 0"
  shows "\<exists>q. onMouseMove (Some m) evt st = Inr (st\<lparr>dragEnd := Some q\<rparr>) \<and>
     (margin_left m \<le> clientX evt \<and> clientX evt \<le> margin_right m \<longrightarrow>
        pt_x q = clientX evt) \<and>
     (margin_top m \<le> clientY evt \<and> clientY evt \<le> margin_bottom m \<longrightarrow>
        pt_y q = clientY evt) \<and>
     (dragEnd st = None \<longrightarrow> q = \<lparr>pt_x = clientX evt, pt_y = clientY evt\<rparr>) \<and>
     (\<forall>p. dragEnd st = Some p \<and> pt_x p \<noteq> 0 \<and>
          \<not> (margin_left m \<le> clientX evt \<and> clientX evt \<le> margin_right m) \<longrightarrow>
          pt_x q = pt_x p) \<and>
     (\<forall>p. dragEnd st = Some p \<and> pt_y p \<noteq> 0 \<and>
          \<not> (margin_top m \<le> clientY evt \<and> clientY evt \<le> margin_bottom m) \<longrightarrow>
          pt_y q = pt_y p)"
  unfolding onMouseMove_pressed [OF assms]
  by (auto simp: or_else_def)

theorem onMouseMove_axis_clamp_witness:
  "onMouseMove
     (Some \<lparr>margin_top = 0, margin_left = 0, margin_bottom = 100, margin_right = 100\<rparr>)
     \<lparr>pageX = 150, pageY = 50, clientX = 150, clientY = 50, buttons = 1\<rparr>
     \<lparr>dragStart = Some \<lparr>pt_x = 50, pt_y = 50\<rparr>, dragEnd = Some \<lparr>pt_x = 80, pt_y = 50\<rparr>,
      isMouseDown = True, selectionBox = None, showSelection = True, selectedIndex = {},
      items = ([] :: nat option list)\<rparr>
   = Inr \<lparr>dragStart = Some \<lparr>pt_x = 50, pt_y = 50\<rparr>,
          dragEnd = Some \<lparr>pt_x = 80, pt_y = 50\<rparr>,
          isMouseDown = True, selectionBox = None, showSelection = True, selectedIndex = {},
          items = []\<rparr> \<and>
   onMouseMove
     (Some \<lparr>margin_top = 0, margin_left = 0, margin_bottom = 100, margin_right = 100\<rparr>)
     \<lparr>pageX = 150, pageY = 50, clientX = 150, clientY = 50, buttons = 1\<rparr>
     \<lparr>dragStart = Some \<lparr>pt_x = 50, pt_y = 50\<rparr>, dragEnd = None,
      isMouseDown = True, selectionBox = None, showSelection = True, selectedIndex = {},
      items = ([] :: nat option list)\<rparr>
   = Inr \<lparr>dragStart = Some \<lparr>pt_x = 50, pt_y = 50\<rparr>,
          dragEnd = Some \<lparr>pt_x = 150, pt_y = 50\<rparr>,
          isMouseDown = True, selectionBox = None, showSelection = True, selectedIndex = {},
          items = []\<rparr>"
proof -
  let ?m = "\<lparr>margin_top = 0, margin_left = 0, margin_bottom = 100, margin_right = 100\<rparr>"
  let ?evt = "\<lparr>pageX = 150, pageY = 50, clientX = 150, clientY = 50, buttons = 1\<rparr>"
  let ?st = "\<lparr>dragStart = Some \<lparr>pt_x = 50, pt_y = 50\<rparr>, dragEnd = Some \<lparr>pt_x = 80, pt_y = 50\<rparr>,
      isMouseDown = True, selectionBox = None, showSelection = True, selectedIndex = {},
      items = ([] :: nat option list)\<rparr>"
  let ?init = "\<lparr>dragStart = Some \<lparr>pt_x = 50, pt_y = 50\<rparr>, dragEnd = None,
      isMouseDown = True, selectionBox = None, showSelection = True, selectedIndex = {},
      items = ([] :: nat option list)\<rparr>"
  have "isMouseDown ?st" and "buttons ?evt \<noteq> 0"
    by simp_all
  from onMouseMove_axis_clamp [OF this, of ?m] obtain q where
    mv: "onMouseMove (Some ?m) ?evt ?st = Inr (?st\<lparr>dragEnd := Some q\<rparr>)" and
    y: "margin_top ?m \<le> clientY ?evt \<and> clientY ?evt \<le> margin_bottom ?m \<longrightarrow>
        pt_y q = clientY ?evt" and
    x: "\<forall>p. dragEnd ?st = Some p \<and> pt_x p \<noteq> 0 \<and>
          \<not> (margin_left ?m \<le> clientX ?evt \<and> clientX ?evt \<le> margin_right ?m) \<longrightarrow>
          pt_x q = pt_x p"
    by blast
  from y have "pt_y q = 50" by simp
  moreover from x [rule_format, of "\<lparr>pt_x = 80, pt_y = 50\<rparr>"] have "pt_x q = 80" by simp
  ultimately have "q = \<lparr>pt_x = 80, pt_y = 50\<rparr>" by (cases q) simp
  with mv have kept: "onMouseMove (Some ?m) ?evt ?st =
      Inr (?st\<lparr>dragEnd := Some \<lparr>pt_x = 80, pt_y = 50\<rparr>\<rparr>)"
    by simp
  have "isMouseDown ?init" and "buttons ?evt \<noteq> 0"
    by simp_all
  from onMouseMove_axis_clamp [OF this, of ?m] obtain q0 where
    mv0: "onMouseMove (Some ?m) ?evt ?init = Inr (?init\<lparr>dragEnd := Some q0\<rparr>)" and
    raw: "dragEnd ?init = None \<longrightarrow> q0 = \<lparr>pt_x = clientX ?evt, pt_y = clientY ?evt\<rparr>"
    by (elim exE conjE) (rule that)
  from raw have "q0 = \<lparr>pt_x = 150, pt_y = 50\<rparr>" by simp
  with mv0 have "onMouseMove (Some ?m) ?evt ?init =
      Inr (?init\<lparr>dragEnd := Some \<lparr>pt_x = 150, pt_y = 50\<rparr>\<rparr>)"
    by simp
  with kept show ?thesis by simp
qed

text \<open>
  C2 as stated fails twice under that margin, for a press at \<open>(50, 50)\<close> and a
  move to \<open>(150, 50)\<close>. Directly after the press there is no previous end, and
  the end becomes the raw point \<open>(150, 50)\<close>, whose x is out of bounds. With
  the previous end \<open>(0, 50)\<close>, the x of the end is not kept at 0 but becomes
  150, since \<open>dragEnd?.x || evt.clientX\<close> takes a zero for a missing value.
\<close>

theorem onMouseMove_seed_counterexample:
  "onMouseMove
     (Some \<lparr>margin_top = 0, margin_left = 0, margin_bottom = 100, margin_right = 100\<rparr>)
     \<lparr>pageX = 150, pageY = 50, clientX = 150, clientY = 50, buttons = 1\<rparr>
     \<lparr>dragStart = Some \<lparr>pt_x = 50, pt_y = 50\<rparr>, dragEnd = None,
      isMouseDown = True, selectionBox = None, showSelection = True, selectedIndex = {},
      items = ([] :: nat option list)\<rparr>
   = Inr \<lparr>dragStart = Some \<lparr>pt_x = 50, pt_y = 50\<rparr>,
          dragEnd = Some \<lparr>pt_x = 150, pt_y = 50\<rparr>,
          isMouseDown = True, selectionBox = None, showSelection = True, selectedIndex = {},
          items = []\<rparr> \<and>
   onMouseMove
     (Some \<lparr>margin_top = 0, margin_left = 0, margin_bottom = 100, margin_right = 100\<rparr>)
     \<lparr>pageX = 150, pageY = 50, clientX = 150, clientY = 50, buttons = 1\<rparr>
     \<lparr>dragStart = Some \<lparr>pt_x = 50, pt_y = 50\<rparr>, dragEnd = Some \<lparr>pt_x = 0, pt_y = 50\<rparr>,
      isMouseDown = True, selectionBox = None, showSelection = True, selectedIndex = {},
      items = ([] :: nat option list)\<rparr>
   = Inr \<lparr>dragStart = Some \<lparr>pt_x = 50, pt_y = 50\<rparr>,
          dragEnd = Some \<lparr>pt_x = 150, pt_y = 50\<rparr>,
          isMouseDown = True, selectionBox = None, showSelection = True, selectedIndex = {},
          items = []\<rparr>"
  by (simp add: onMouseMove_def isWithinTarget_def or_else_def Let_def)

text \<open>
  C6. \<open>onMouseUp\<close> always gives the reset state: the selected set empty, not
  dragging, the drag box hidden, the rectangle, the start and the end cleared
  (the registry is kept, and the effect then changes nothing and notifies
  nobody); and a move with no button pressed while dragging gives that same
  state, with or without a margin.
\<close>

theorem onMouseUp_full_reset:
  "selectedIndex (onMouseUp evt st) = {} \<and> \<not> isMouseDown (onMouseUp evt st) \<and>
   \<not> showSelection (onMouseUp evt st) \<and> selectionBox (onMouseUp evt st) = None \<and>
   dragStart (onMouseUp evt st) = None \<and> dragEnd (onMouseUp evt st) = None \<and>
   items (onMouseUp evt st) = items st \<and>
   selectionEffect bbox (onMouseUp evt st) = Inr (onMouseUp evt st, None) \<and>
   (isMouseDown st \<and> buttons evt' = 0 \<longrightarrow>
      onMouseMove mg evt' st = Inr (onMouseUp evt st))"
  by (simp add: onMouseUp_def resetSelection_def onMouseMove_def selectionEffect_def)

theorem onMouseUp_full_reset_witness:
  "onMouseMove None \<lparr>pageX = 150, pageY = 50, clientX = 150, clientY = 50, buttons = 0\<rparr>
     \<lparr>dragStart = Some \<lparr>pt_x = 0, pt_y = 0\<rparr>, dragEnd = Some \<lparr>pt_x = 50, pt_y = 50\<rparr>,
      isMouseDown = True,
      selectionBox = Some \<lparr>box_left = 0, box_top = 0, box_width = 50, box_height = 50\<rparr>,
      showSelection = True, selectedIndex = {0, 1, 2},
      items = [Some 0, Some 1, Some (2::nat)]\<rparr>
   = Inr \<lparr>dragStart = None, dragEnd = None, isMouseDown = False, selectionBox = None,
          showSelection = False, selectedIndex = {}, items = [Some 0, Some 1, Some 2]\<rparr>"
proof -
  let ?evt = "\<lparr>pageX = 150, pageY = 50, clientX = 150, clientY = 50, buttons = 0\<rparr>"
  let ?st = "\<lparr>dragStart = Some \<lparr>pt_x = 0, pt_y = 0\<rparr>, dragEnd = Some \<lparr>pt_x = 50, pt_y = 50\<rparr>,
      isMouseDown = True,
      selectionBox = Some \<lparr>box_left = 0, box_top = 0, box_width = 50, box_height = 50\<rparr>,
      showSelection = True, selectedIndex = {0, 1, 2},
      items = [Some 0, Some 1, Some (2::nat)]\<rparr>"
  have "isMouseDown ?st \<and> buttons ?evt = 0"
    by simp
  with onMouseUp_full_reset [of ?evt ?st _ ?evt None]
  have "onMouseMove None ?evt ?st = Inr (onMouseUp ?evt ?st)"
    by blast
  then show ?thesis
    by (simp add: onMouseUp_def resetSelection_def)
qed

lemma idle_is_reset:
  assumes "reachable st" and "\<not> isMouseDown st"
  shows "dragStart st = None \<and> dragEnd st = None \<and> selectedIndex st = {} \<and>
         \<not> showSelection st \<and> selectionBox st = None"
  using assms
proof (induction rule: reachable.induct)
  case reach_init
  then show ?case by (simp add: initial_state_def)
next
  case (reach_add st rendered item)
  then show ?case by (simp add: addItem_def split: if_splits)
next
  case (reach_down st mg evt st')
  then show ?case
    by (auto simp: onMouseDown_def resetSelection_def Let_def split: sum.splits if_splits)
next
  case (reach_move st mg evt st')
  then show ?case
    by (auto simp: onMouseMove_def onMouseUp_def resetSelection_def Let_def
        split: sum.splits if_splits)
next
  case (reach_up st evt)
  then show ?case by (simp add: onMouseUp_def resetSelection_def)
next
  case (reach_effect st bbox st' out)
  then show ?case
    by (auto simp: selectionEffect_def Let_def split: option.splits sum.splits)
qed

text \<open>
  C4. In a reachable state that is not dragging, a pointer-move and a pointer-up
  both leave the whole state as it is: start, end, selected set, visibility of
  the drag box and selection rectangle (a state that is not dragging is already
  reset, so the setters of \<open>onMouseUp\<close> write the values that are there).
\<close>

theorem idle_events_ignored:
  assumes "reachable st" and "\<not> isMouseDown st"
  shows "onMouseMove mg evt st = Inr st \<and> onMouseUp evt st = st"
proof
  from assms(2) show "onMouseMove mg evt st = Inr st"
    by (simp add: onMouseMove_def)
next
  from idle_is_reset [OF assms] assms(2) show "onMouseUp evt st = st"
    by (cases st) (simp add: onMouseUp_def resetSelection_def)
qed

theorem idle_events_ignored_witness:
  "onMouseMove None \<lparr>pageX = 5, pageY = 5, clientX = 5, clientY = 5, buttons = 1\<rparr>
     \<lparr>dragStart = None, dragEnd = None, isMouseDown = False, selectionBox = None,
      showSelection = False, selectedIndex = {}, items = [Some (7::nat)]\<rparr>
   = Inr \<lparr>dragStart = None, dragEnd = None, isMouseDown = False, selectionBox = None,
          showSelection = False, selectedIndex = {}, items = [Some 7]\<rparr> \<and>
   onMouseUp \<lparr>pageX = 5, pageY = 5, clientX = 5, clientY = 5, buttons = 0\<rparr>
     \<lparr>dragStart = None, dragEnd = None, isMouseDown = False, selectionBox = None,
      showSelection = False, selectedIndex = {}, items = [Some (7::nat)]\<rparr>
   = \<lparr>dragStart = None, dragEnd = None, isMouseDown = False, selectionBox = None,
      showSelection = False, selectedIndex = {}, items = [Some 7]\<rparr>"
proof -
  let ?idle = "\<lparr>dragStart = None, dragEnd = None, isMouseDown = False, selectionBox = None,
      showSelection = False, selectedIndex = {}, items = [Some (7::nat)]\<rparr>"
  have "reachable (addItem [] (Some 7) (initial_state :: nat hook_state))"
    by (intro reach_add reach_init)
  moreover have "addItem [] (Some 7) (initial_state :: nat hook_state) = ?idle"
    by (simp add: addItem_def initial_state_def)
  ultimately have r: "reachable ?idle"
    by simp
  have i: "\<not> isMouseDown ?idle"
    by simp
  from idle_events_ignored [OF r i] show ?thesis
    by blast
qed

subsection \<open>The selection reconciler\<close>

lemma forEach_items_mem:
  "k \<in> forEach_items box bbox sel i its new \<longleftrightarrow>
     (if i \<le> k \<and> k < i + length its
      then (case its ! (k - i) of
              None \<Rightarrow> k \<in> new
            | Some el \<Rightarrow>
                if boxesIntersect box (bbox el) \<and> k \<notin> sel then True
                else if \<not> boxesIntersect box (bbox el) \<and> k \<in> sel then False
                else k \<in> new)
      else k \<in> new)"
proof (induction its arbitrary: i new)
  case Nil
  then show ?case by auto
next
  case (Cons it rest)
  let ?new' = "(case it of
          None \<Rightarrow> new
        | Some el \<Rightarrow>
            (let isIntersecting = boxesIntersect box (bbox el)
             in if isIntersecting \<and> i \<notin> sel then insert i new
                else if \<not> isIntersecting \<and> i \<in> sel then new - {i}
                else new))"
  have step: "k \<in> forEach_items box bbox sel i (it # rest) new \<longleftrightarrow>
      k \<in> forEach_items box bbox sel (Suc i) rest ?new'"
    by simp
  consider "k < i" | "k = i" | "i < k" by linarith
  then show ?case
  proof cases
    case 1
    then have "k \<in> ?new' \<longleftrightarrow> k \<in> new"
      by (auto simp: Let_def split: option.splits)
    with 1 show ?thesis
      by (simp only: step Cons.IH) simp
  next
    case 2
    have "k \<in> forEach_items box bbox sel (Suc i) rest ?new' \<longleftrightarrow> k \<in> ?new'"
      unfolding Cons.IH using 2 by simp
    with 2 show ?thesis
      unfolding step by (auto simp: Let_def split: option.splits)
  next
    case 3
    then have new': "k \<in> ?new' \<longleftrightarrow> k \<in> new"
      by (auto simp: Let_def split: option.splits)
    from 3 have idx: "(it # rest) ! (k - i) = rest ! (k - Suc i)"
      by (simp add: Suc_diff_le)
    from 3 have rng: "(i \<le> k \<and> k < i + length (it # rest)) \<longleftrightarrow> (Suc i \<le> k \<and> k < Suc i + length rest)"
      by auto
    show ?thesis
      by (simp only: step Cons.IH idx rng new')
  qed
qed

lemma forEach_items_eq:
  "forEach_items box bbox sel 0 its sel =
     (sel \<union> {k. k < length its \<and> k \<notin> sel \<and>
                 (\<exists>el. its ! k = Some el \<and> boxesIntersect box (bbox el))})
     - {k. k < length its \<and> k \<in> sel \<and>
            (\<exists>el. its ! k = Some el \<and> \<not> boxesIntersect box (bbox el))}"
  by (auto simp: forEach_items_mem split: option.splits if_splits)

lemma selectionEffect_defined:
  assumes "dragStart st = Some a" and "dragEnd st = Some b"
  shows "selectionEffect bbox st =
     Inr (st\<lparr>selectedIndex :=
               forEach_items \<lparr>box_left = min (pt_x a) (pt_x b), box_top = min (pt_y a) (pt_y b),
                  box_width = \<bar>pt_x a - pt_x b\<bar>, box_height = \<bar>pt_y a - pt_y b\<bar>\<rparr>
                 bbox (selectedIndex st) 0 (items st) (selectedIndex st),
             selectionBox := Some \<lparr>box_left = min (pt_x a) (pt_x b), box_top = min (pt_y a) (pt_y b),
                  box_width = \<bar>pt_x a - pt_x b\<bar>, box_height = \<bar>pt_y a - pt_y b\<bar>\<rparr>\<rparr>,
          Some (forEach_items \<lparr>box_left = min (pt_x a) (pt_x b), box_top = min (pt_y a) (pt_y b),
                  box_width = \<bar>pt_x a - pt_x b\<bar>, box_height = \<bar>pt_y a - pt_y b\<bar>\<rparr>
                 bbox (selectedIndex st) 0 (items st) (selectedIndex st)))"
  using assms by (simp add: selectionEffect_def calculateSelectionBox_def Let_def)

lemma forEach_items_bound:
  assumes "k \<in> forEach_items box bbox sel 0 its sel"
  shows "k \<in> sel \<or> k < length its"
  using assms by (auto simp: forEach_items_mem split: if_splits)

text \<open>
  C1. When \<open>dragStart\<close> and \<open>dragEnd\<close> are both set, the effect computes the
  new selected set from the previous one by the minimal diff: it adds every
  index of the registry that is not selected and whose item's box intersects the
  selection box, removes every selected index whose item's box does not, and
  keeps the rest; it stores that set and the box, and calls
  \<open>onSelectionChange\<close> with the set in every case, changed or not.
\<close>

theorem reconciler_minimal_diff:
  assumes "dragStart st = Some a" and "dragEnd st = Some b"
  shows "\<exists>box S'.
     calculateSelectionBox (Some a) (Some b) a b = Inr box \<and>
     S' = (selectedIndex st \<union>
             {i. i < length (items st) \<and> i \<notin> selectedIndex st \<and>
                 (\<exists>el. items st ! i = Some el \<and> boxesIntersect box (bbox el))})
          - {i. i < length (items st) \<and> i \<in> selectedIndex st \<and>
                (\<exists>el. items st ! i = Some el \<and> \<not> boxesIntersect box (bbox el))} \<and>
     selectionEffect bbox st =
       Inr (st\<lparr>selectedIndex := S', selectionBox := Some box\<rparr>, Some S')"
  unfolding selectionEffect_defined [OF assms] forEach_items_eq
  by (simp add: calculateSelectionBox_def)

theorem reconciler_minimal_diff_witness:
  "selectionEffect (\<lambda>n. \<lparr>box_left = 20 * real n, box_top = 20 * real n, box_width = 10, box_height = 10\<rparr>)
     \<lparr>dragStart = Some \<lparr>pt_x = 0, pt_y = 0\<rparr>, dragEnd = Some \<lparr>pt_x = 30, pt_y = 30\<rparr>,
      isMouseDown = True, selectionBox = None, showSelection = True, selectedIndex = {},
      items = [Some 0, Some 1, Some (2::nat)]\<rparr>
   = Inr (\<lparr>dragStart = Some \<lparr>pt_x = 0, pt_y = 0\<rparr>, dragEnd = Some \<lparr>pt_x = 30, pt_y = 30\<rparr>,
          isMouseDown = True,
          selectionBox = Some \<lparr>box_left = 0, box_top = 0, box_width = 30, box_height = 30\<rparr>,
          showSelection = True, selectedIndex = {0, 1},
          items = [Some 0, Some 1, Some 2]\<rparr>, Some {0, 1}) \<and>
   selectionEffect (\<lambda>n. \<lparr>box_left = 20 * real n, box_top = 20 * real n, box_width = 10, box_height = 10\<rparr>)
     \<lparr>dragStart = Some \<lparr>pt_x = 0, pt_y = 0\<rparr>, dragEnd = Some \<lparr>pt_x = 50, pt_y = 50\<rparr>,
      isMouseDown = True,
      selectionBox = Some \<lparr>box_left = 0, box_top = 0, box_width = 30, box_height = 30\<rparr>,
      showSelection = True, selectedIndex = {0, 1},
      items = [Some 0, Some 1, Some (2::nat)]\<rparr>
   = Inr (\<lparr>dragStart = Some \<lparr>pt_x = 0, pt_y = 0\<rparr>, dragEnd = Some \<lparr>pt_x = 50, pt_y = 50\<rparr>,
          isMouseDown = True,
          selectionBox = Some \<lparr>box_left = 0, box_top = 0, box_width = 50, box_height = 50\<rparr>,
          showSelection = True, selectedIndex = {0, 1, 2},
          items = [Some 0, Some 1, Some 2]\<rparr>, Some {0, 1, 2})"
proof -
  let ?bbox = "\<lambda>n::nat. \<lparr>box_left = 20 * real n, box_top = 20 * real n, box_width = 10, box_height = 10\<rparr>"
  let ?a = "\<lparr>pt_x = 0, pt_y = 0\<rparr>"
  let ?b1 = "\<lparr>pt_x = 30, pt_y = 30\<rparr>"
  let ?b2 = "\<lparr>pt_x = 50, pt_y = 50\<rparr>"
  let ?st1 = "\<lparr>dragStart = Some ?a, dragEnd = Some ?b1,
      isMouseDown = True, selectionBox = None, showSelection = True, selectedIndex = {},
      items = [Some 0, Some 1, Some (2::nat)]\<rparr>"
  let ?st2 = "\<lparr>dragStart = Some ?a, dragEnd = Some ?b2,
      isMouseDown = True,
      selectionBox = Some \<lparr>box_left = 0, box_top = 0, box_width = 30, box_height = 30\<rparr>,
      showSelection = True, selectedIndex = {0, 1},
      items = [Some 0, Some 1, Some (2::nat)]\<rparr>"
  have "dragStart ?st1 = Some ?a" and "dragEnd ?st1 = Some ?b1"
    by simp_all
  from reconciler_minimal_diff [OF this, of ?bbox] obtain box1 S1 where
    box1: "calculateSelectionBox (Some ?a) (Some ?b1) ?a ?b1 = Inr box1" and
    S1: "S1 = (selectedIndex ?st1 \<union>
             {i. i < length (items ?st1) \<and> i \<notin> selectedIndex ?st1 \<and>
                 (\<exists>el. items ?st1 ! i = Some el \<and> boxesIntersect box1 (?bbox el))})
          - {i. i < length (items ?st1) \<and> i \<in> selectedIndex ?st1 \<and>
                (\<exists>el. items ?st1 ! i = Some el \<and> \<not> boxesIntersect box1 (?bbox el))}" and
    eff1: "selectionEffect ?bbox ?st1 =
       Inr (?st1\<lparr>selectedIndex := S1, selectionBox := Some box1\<rparr>, Some S1)"
    by blast
  from box1 have b1: "box1 = \<lparr>box_left = 0, box_top = 0, box_width = 30, box_height = 30\<rparr>"
    by (simp add: calculateSelectionBox_def)
  have s1: "S1 = {0, 1}"
    unfolding S1 b1 by (auto simp: less_Suc_eq boxesIntersect_def)
  have "dragStart ?st2 = Some ?a" and "dragEnd ?st2 = Some ?b2"
    by simp_all
  from reconciler_minimal_diff [OF this, of ?bbox] obtain box2 S2 where
    box2: "calculateSelectionBox (Some ?a) (Some ?b2) ?a ?b2 = Inr box2" and
    S2: "S2 = (selectedIndex ?st2 \<union>
             {i. i < length (items ?st2) \<and> i \<notin> selectedIndex ?st2 \<and>
                 (\<exists>el. items ?st2 ! i = Some el \<and> boxesIntersect box2 (?bbox el))})
          - {i. i < length (items ?st2) \<and> i \<in> selectedIndex ?st2 \<and>
                (\<exists>el. items ?st2 ! i = Some el \<and> \<not> boxesIntersect box2 (?bbox el))}" and
    eff2: "selectionEffect ?bbox ?st2 =
       Inr (?st2\<lparr>selectedIndex := S2, selectionBox := Some box2\<rparr>, Some S2)"
    by blast
  from box2 have b2: "box2 = \<lparr>box_left = 0, box_top = 0, box_width = 50, box_height = 50\<rparr>"
    by (simp add: calculateSelectionBox_def)
  have s2: "S2 = {0, 1, 2}"
    unfolding S2 b2 by (auto simp: less_Suc_eq boxesIntersect_def)
  from eff1 eff2 show ?thesis
    unfolding s1 s2 b1 b2 by simp
qed

text \<open>
  C10. In every reachable state, every selected index is an index of the
  registry.
\<close>

theorem selectedIndex_valid:
  assumes "reachable st"
  shows "\<forall>i \<in> selectedIndex st. i < length (items st)"
  using assms
proof (induction rule: reachable.induct)
  case reach_init
  then show ?case by (simp add: initial_state_def)
next
  case (reach_add st rendered item)
  then show ?case by (auto simp: addItem_def)
next
  case (reach_down st mg evt st')
  then show ?case
    by (auto simp: onMouseDown_def resetSelection_def Let_def split: sum.splits if_splits)
next
  case (reach_move st mg evt st')
  then show ?case
    by (auto simp: onMouseMove_def onMouseUp_def resetSelection_def Let_def
        split: sum.splits if_splits)
next
  case (reach_up st evt)
  then show ?case by (simp add: onMouseUp_def resetSelection_def)
next
  case (reach_effect st bbox st' out)
  have bound: "\<And>box k. k \<in> forEach_items box bbox (selectedIndex st) 0 (items st) (selectedIndex st)
      \<Longrightarrow> k < length (items st)"
    using forEach_items_bound reach_effect.IH by blast
  from reach_effect.hyps(2) reach_effect.IH show ?case
    by (auto simp: selectionEffect_def Let_def bound split: option.splits sum.splits)
qed

theorem selectedIndex_valid_witness:
  "reachable \<lparr>dragStart = Some \<lparr>pt_x = 0, pt_y = 0\<rparr>, dragEnd = Some \<lparr>pt_x = 15, pt_y = 15\<rparr>,
      isMouseDown = True,
      selectionBox = Some \<lparr>box_left = 0, box_top = 0, box_width = 15, box_height = 15\<rparr>,
      showSelection = True, selectedIndex = {0}, items = [Some 0, Some (1::nat)]\<rparr> \<and>
   (0::nat) < length [Some 0, Some (1::nat)]"
proof -
  let ?bbox = "\<lambda>n::nat. \<lparr>box_left = 20 * real n, box_top = 20 * real n, box_width = 10, box_height = 10\<rparr>"
  let ?m = "\<lparr>margin_top = 0, margin_left = 0, margin_bottom = 100, margin_right = 100\<rparr>"
  let ?s0 = "initial_state :: nat hook_state"
  let ?s1 = "addItem [] (Some 0) ?s0"
  let ?s2 = "addItem [Some 0] (Some 1) ?s1"
  let ?s3 = "\<lparr>dragStart = Some \<lparr>pt_x = 0, pt_y = 0\<rparr>, dragEnd = None,
      isMouseDown = True, selectionBox = None,
      showSelection = True, selectedIndex = {}, items = [Some 0, Some (1::nat)]\<rparr>"
  let ?s4 = "\<lparr>dragStart = Some \<lparr>pt_x = 0, pt_y = 0\<rparr>, dragEnd = Some \<lparr>pt_x = 15, pt_y = 15\<rparr>,
      isMouseDown = True, selectionBox = None,
      showSelection = True, selectedIndex = {}, items = [Some 0, Some (1::nat)]\<rparr>"
  let ?s5 = "\<lparr>dragStart = Some \<lparr>pt_x = 0, pt_y = 0\<rparr>, dragEnd = Some \<lparr>pt_x = 15, pt_y = 15\<rparr>,
      isMouseDown = True,
      selectionBox = Some \<lparr>box_left = 0, box_top = 0, box_width = 15, box_height = 15\<rparr>,
      showSelection = True, selectedIndex = {0}, items = [Some 0, Some (1::nat)]\<rparr>"
  have r2: "reachable ?s2"
    by (intro reach_add reach_init)
  have "onMouseDown (Some ?m) \<lparr>pageX = 0, pageY = 0, clientX = 0, clientY = 0, buttons = 1\<rparr> ?s2
      = Inr ?s3"
    by (simp add: onMouseDown_def isWithinTarget_def within_values_def resetSelection_def
        addItem_def initial_state_def)
  with r2 have r3: "reachable ?s3"
    by (rule reach_down)
  have "onMouseMove (Some ?m) \<lparr>pageX = 15, pageY = 15, clientX = 15, clientY = 15, buttons = 1\<rparr> ?s3
      = Inr ?s4"
    by (simp add: onMouseMove_def isWithinTarget_def or_else_def)
  with r3 have r4: "reachable ?s4"
    by (rule reach_move)
  have "selectionEffect ?bbox ?s4 = Inr (?s5, Some {0})"
    by (simp add: selectionEffect_def calculateSelectionBox_def boxesIntersect_def Let_def)
  with r4 have r5: "reachable ?s5"
    by (rule reach_effect)
  from selectedIndex_valid [OF r5] have "(0::nat) < length (items ?s5)"
    by simp
  with r5 show ?thesis
    by simp
qed

end
